theory Spec2Isabelle
  imports Complex_Main
begin

section \<open>JavaScript values\<close>

text \<open>
  The dispatcher of \<^verbatim>\<open>src/webhook.ts\<close> takes \<^verbatim>\<open>raw: any\<close>, a value produced by JSON
  decoding. The model covers plain data: \<^verbatim>\<open>undefined\<close>, \<^verbatim>\<open>null\<close>, booleans, numbers,
  strings, and references to objects and arrays that live in a heap. Functions, symbols,
  big integers, accessors and proxies are outside the model.

  A number is a double only as far as the program looks at it: the dispatcher tests its
  truthiness and compares it with strings, so the finite values are rationals, and the
  two zeros, the infinities and \<^verbatim>\<open>NaN\<close> are told apart.
  A string is the list of its code units, written with Isabelle's characters.
\<close>

datatype jsnum = NaN | PosInf | NegInf | NegZero | Fin rat

datatype jsval =
    JUndefined
  | JNull
  | JBool bool
  | JNum jsnum
  | JStr string
  | JRef nat

datatype jsobj =
    JObject "(string \<times> jsval) list"
  | JArray "jsval list"

text \<open>The heap: the object at address \<open>a\<close> is the \<open>a\<close>-th cell; allocation appends a cell.\<close>

type_synonym heap = "jsobj list"

datatype failure = TypeError | NoSuchObject

definition bind_result :: "failure + 'a \<Rightarrow> ('a \<Rightarrow> failure + 'b) \<Rightarrow> failure + 'b" where
  "bind_result m f = (case m of Inl e \<Rightarrow> Inl e | Inr x \<Rightarrow> f x)"

text \<open>\<^verbatim>\<open>!v\<close> is \<open>\<not> truthy v\<close>: the falsy values are \<^verbatim>\<open>undefined\<close>, \<^verbatim>\<open>null\<close>, \<^verbatim>\<open>false\<close>,
  \<^verbatim>\<open>+0\<close>, \<^verbatim>\<open>-0\<close>, \<^verbatim>\<open>NaN\<close> and the empty string.\<close>

fun truthy :: "jsval \<Rightarrow> bool" where
  "truthy JUndefined = False"
| "truthy JNull = False"
| "truthy (JBool b) = b"
| "truthy (JNum n) = (n \<noteq> NaN \<and> n \<noteq> NegZero \<and> n \<noteq> Fin 0)"
| "truthy (JStr s) = (s \<noteq> [])"
| "truthy (JRef a) = True"

fun typeof :: "jsval \<Rightarrow> string" where
  "typeof JUndefined = ''undefined''"
| "typeof JNull = ''object''"
| "typeof (JBool b) = ''boolean''"
| "typeof (JNum n) = ''number''"
| "typeof (JStr s) = ''string''"
| "typeof (JRef a) = ''object''"

text \<open>\<^verbatim>\<open>a === b\<close>: no coercion; \<^verbatim>\<open>NaN\<close> equals nothing, the two zeros equal each other,
  references are equal when they are the same address.\<close>

definition num_eq :: "jsnum \<Rightarrow> jsnum \<Rightarrow> bool" where
  "num_eq a b =
     (a \<noteq> NaN \<and> b \<noteq> NaN \<and>
      (a = b \<or> (a = NegZero \<and> b = Fin 0) \<or> (a = Fin 0 \<and> b = NegZero)))"

definition strict_eq :: "jsval \<Rightarrow> jsval \<Rightarrow> bool" where
  "strict_eq a b =
     (case (a, b) of
        (JNum m, JNum n) \<Rightarrow> num_eq m n
      | _ \<Rightarrow> a = b)"

section \<open>Signature check\<close>

text \<open>
  \<^verbatim>\<open>
  export function verifyWasenderWebhookSignature(
    requestSignature: string | undefined | null,
    configuredSecret: string
  ): boolean {
    if (!requestSignature || !configuredSecret) {
      return false;
    }
    return requestSignature === configuredSecret;
  }
  \<close>
  The parameter types are erased at run time, so both arguments range over all values.
\<close>

definition verifyWasenderWebhookSignature :: "jsval \<Rightarrow> jsval \<Rightarrow> bool" where
  "verifyWasenderWebhookSignature requestSignature configuredSecret =
     (if \<not> truthy requestSignature \<or> \<not> truthy configuredSecret then False
      else strict_eq requestSignature configuredSecret)"

section \<open>Reading properties\<close>

text \<open>
  An array index is a canonical decimal numeral: digits only, no leading zero
  except for \<^verbatim>\<open>"0"\<close> itself.
\<close>

definition is_digit :: "char \<Rightarrow> bool" where
  "is_digit c = (c \<in> set ''0123456789'')"

definition digit_val :: "char \<Rightarrow> nat" where
  "digit_val c = of_char c - 48"

definition array_index :: "string \<Rightarrow> nat option" where
  "array_index k =
     (if k \<noteq> [] \<and> list_all is_digit k \<and> (hd k \<noteq> CHR ''0'' \<or> k = ''0'')
      then Some (foldl (\<lambda>n c. 10 * n + digit_val c) 0 k)
      else None)"

text \<open>The own properties of an array are its elements and \<^verbatim>\<open>length\<close>; those of a string
  are its code units and \<^verbatim>\<open>length\<close>.\<close>

definition array_prop :: "jsval list \<Rightarrow> string \<Rightarrow> jsval" where
  "array_prop xs k =
     (case array_index k of
        Some i \<Rightarrow> if i < length xs then xs ! i else JUndefined
      | None \<Rightarrow> if k = ''length'' then JNum (Fin (of_nat (length xs))) else JUndefined)"

definition string_prop :: "string \<Rightarrow> string \<Rightarrow> jsval" where
  "string_prop s k =
     (case array_index k of
        Some i \<Rightarrow> if i < length s then JStr [s ! i] else JUndefined
      | None \<Rightarrow> if k = ''length'' then JNum (Fin (of_nat (length s))) else JUndefined)"

definition object_prop :: "(string \<times> jsval) list \<Rightarrow> string \<Rightarrow> jsval" where
  "object_prop fs k = (case map_of fs k of Some v \<Rightarrow> v | None \<Rightarrow> JUndefined)"

text \<open>
  \<^verbatim>\<open>v.k\<close> for a property name \<open>k\<close> that no built-in prototype defines; the four names the
  dispatcher reads (\<^verbatim>\<open>event\<close>, \<^verbatim>\<open>timestamp\<close>, \<^verbatim>\<open>data\<close>, \<^verbatim>\<open>sessionId\<close>) are such names.
  Reading a property of \<^verbatim>\<open>undefined\<close> or \<^verbatim>\<open>null\<close> throws a \<^verbatim>\<open>TypeError\<close>; an absent
  property reads as \<^verbatim>\<open>undefined\<close>. A reference to a cell the heap does not have is not a
  JavaScript value; reading through it is the failure \<open>NoSuchObject\<close>.
\<close>

fun get_prop :: "heap \<Rightarrow> jsval \<Rightarrow> string \<Rightarrow> failure + jsval" where
  "get_prop h JUndefined k = Inl TypeError"
| "get_prop h JNull k = Inl TypeError"
| "get_prop h (JBool b) k = Inr JUndefined"
| "get_prop h (JNum n) k = Inr JUndefined"
| "get_prop h (JStr s) k = Inr (string_prop s k)"
| "get_prop h (JRef a) k =
     (if a < length h
      then (case h ! a of
              JObject fs \<Rightarrow> Inr (object_prop fs k)
            | JArray xs \<Rightarrow> Inr (array_prop xs k))
      else Inl NoSuchObject)"

text \<open>\<^verbatim>\<open>v.k1.k2...\<close>, as the tests read \<^verbatim>\<open>dispatched.data.call.id\<close>.\<close>

fun get_path :: "heap \<Rightarrow> jsval \<Rightarrow> string list \<Rightarrow> failure + jsval" where
  "get_path h v [] = Inr v"
| "get_path h v (k # ks) = bind_result (get_prop h v k) (\<lambda>w. get_path h w ks)"

text \<open>Whether the object or array behind a reference has \<open>k\<close> as an own property.\<close>

fun has_own :: "heap \<Rightarrow> jsval \<Rightarrow> string \<Rightarrow> bool" where
  "has_own h (JRef a) k =
     (a < length h \<and>
      (case h ! a of
         JObject fs \<Rightarrow> k \<in> set (map fst fs)
       | JArray xs \<Rightarrow>
           (case array_index k of Some i \<Rightarrow> i < length xs | None \<Rightarrow> k = ''length'')))"
| "has_own h v k = False"

text \<open>A value is allocated when it is a primitive or refers to a cell of the heap.\<close>

fun allocated :: "heap \<Rightarrow> jsval \<Rightarrow> bool" where
  "allocated h (JRef a) = (a < length h)"
| "allocated h v = True"

text \<open>An object literal allocates a fresh object and evaluates to the reference to it.\<close>

definition new_object :: "heap \<Rightarrow> (string \<times> jsval) list \<Rightarrow> jsval \<times> heap" where
  "new_object h fs = (JRef (length h), h @ [JObject fs])"

section \<open>Event names\<close>

text \<open>The values of the constant object \<^verbatim>\<open>WasenderWebhookEventType\<close>, under its keys.\<close>

definition ChatsUpsert :: string where "ChatsUpsert = ''chats.upsert''"
definition ChatsUpdate :: string where "ChatsUpdate = ''chats.update''"
definition ChatsDelete :: string where "ChatsDelete = ''chats.delete''"
definition GroupsUpsert :: string where "GroupsUpsert = ''groups.upsert''"
definition GroupsUpdate :: string where "GroupsUpdate = ''groups.update''"
definition GroupParticipantsUpdate :: string where
  "GroupParticipantsUpdate = ''group-participants.update''"
definition ContactsUpsert :: string where "ContactsUpsert = ''contacts.upsert''"
definition ContactsUpdate :: string where "ContactsUpdate = ''contacts.update''"
definition MessagesUpsert :: string where "MessagesUpsert = ''messages.upsert''"
definition MessagesUpdate :: string where "MessagesUpdate = ''messages.update''"
definition MessagesDelete :: string where "MessagesDelete = ''messages.delete''"
definition MessagesReaction :: string where "MessagesReaction = ''messages.reaction''"
definition CallReceived :: string where "CallReceived = ''call.received''"
definition MessagesPersonalReceived :: string where
  "MessagesPersonalReceived = ''messages-personal.received''"
definition MessagesNewsletterReceived :: string where
  "MessagesNewsletterReceived = ''messages-newsletter.received''"
definition MessagesGroupReceived :: string where
  "MessagesGroupReceived = ''messages-group.received''"
definition MessagesReceived :: string where "MessagesReceived = ''messages.received''"
definition PollResults :: string where "PollResults = ''poll.results''"
definition MessageReceiptUpdate :: string where
  "MessageReceiptUpdate = ''message-receipt.update''"
definition MessageSent :: string where "MessageSent = ''message.sent''"
definition SessionStatus :: string where "SessionStatus = ''session.status''"
definition QrCodeUpdated :: string where "QrCodeUpdated = ''qrcode.updated''"

lemmas event_name_defs =
  ChatsUpsert_def ChatsUpdate_def ChatsDelete_def GroupsUpsert_def GroupsUpdate_def
  GroupParticipantsUpdate_def ContactsUpsert_def ContactsUpdate_def MessagesUpsert_def
  MessagesUpdate_def MessagesDelete_def MessagesReaction_def CallReceived_def
  MessagesPersonalReceived_def MessagesNewsletterReceived_def MessagesGroupReceived_def
  MessagesReceived_def PollResults_def MessageReceiptUpdate_def MessageSent_def
  SessionStatus_def QrCodeUpdated_def

text \<open>The known event names, in the order of the declaration.\<close>

definition WasenderWebhookEventType :: "string list" where
  "WasenderWebhookEventType =
     [ChatsUpsert, ChatsUpdate, ChatsDelete,
      GroupsUpsert, GroupsUpdate, GroupParticipantsUpdate,
      ContactsUpsert, ContactsUpdate,
      MessagesUpsert, MessagesUpdate, MessagesDelete, MessagesReaction,
      CallReceived, MessagesPersonalReceived, MessagesNewsletterReceived,
      MessagesGroupReceived, MessagesReceived, PollResults,
      MessageReceiptUpdate,
      MessageSent, SessionStatus, QrCodeUpdated]"

section \<open>The dispatcher\<close>

text \<open>
  \<^verbatim>\<open>
  export function dispatchWebhookEvent(raw: any): WasenderWebhookEvent | FallbackWebhookEvent {
    if (!raw || typeof raw !== "object" || !raw.event) {
      return { event: "unknown", data: raw, raw } as FallbackWebhookEvent;
    }
    const ev = raw.event as string;
    switch (ev) {
      case WasenderWebhookEventType.MessagesUpsert:
        return raw as MessagesUpsertEvent;
      ... (one case label for each of the other names, each returning raw)
      default:
        return { event: ev, timestamp: raw.timestamp, data: raw.data,
                 sessionId: raw.sessionId, raw } as FallbackWebhookEvent;
    }
  }
  \<close>
  The \<^verbatim>\<open>as\<close> casts are erased at run time. The \<^verbatim>\<open>switch\<close> compares \<open>ev\<close> with each case
  label by \<^verbatim>\<open>===\<close>, in the order of the labels; every labelled case returns \<open>raw\<close> itself.
\<close>

definition switch_cases :: "string list" where
  "switch_cases =
     [MessagesUpsert, MessagesUpdate, MessagesDelete, MessagesReaction,
      MessageReceiptUpdate, MessageSent, SessionStatus, QrCodeUpdated,
      CallReceived, MessagesPersonalReceived, MessagesNewsletterReceived,
      MessagesGroupReceived, MessagesReceived, PollResults,
      ChatsUpsert, ChatsUpdate, ChatsDelete, GroupsUpsert, GroupsUpdate,
      GroupParticipantsUpdate, ContactsUpsert, ContactsUpdate]"

definition unknown_event :: "jsval \<Rightarrow> (string \<times> jsval) list" where
  "unknown_event raw = [(''event'', JStr ''unknown''), (''data'', raw), (''raw'', raw)]"

definition fallback_event ::
    "jsval \<Rightarrow> jsval \<Rightarrow> jsval \<Rightarrow> jsval \<Rightarrow> jsval \<Rightarrow> (string \<times> jsval) list" where
  "fallback_event ev ts d sid raw =
     [(''event'', ev), (''timestamp'', ts), (''data'', d), (''sessionId'', sid), (''raw'', raw)]"

definition dispatchWebhookEvent :: "heap \<Rightarrow> jsval \<Rightarrow> failure + (jsval \<times> heap)" where
  "dispatchWebhookEvent h raw =
     (if \<not> truthy raw \<or> typeof raw \<noteq> ''object'' then Inr (new_object h (unknown_event raw))
      else bind_result (get_prop h raw ''event'') (\<lambda>e.
        if \<not> truthy e then Inr (new_object h (unknown_event raw))
        else bind_result (get_prop h raw ''event'') (\<lambda>ev.
          if list_ex (\<lambda>label. strict_eq ev (JStr label)) switch_cases then Inr (raw, h)
          else bind_result (get_prop h raw ''timestamp'') (\<lambda>ts.
               bind_result (get_prop h raw ''data'') (\<lambda>d.
               bind_result (get_prop h raw ''sessionId'') (\<lambda>sid.
                 Inr (new_object h (fallback_event ev ts d sid raw))))))))"

section \<open>Structural equality\<close>

text \<open>
  Two values are deep-equal in a heap when they are the same value, or refer to objects
  with the same property names whose values are deep-equal, or to arrays of the same
  length whose elements are deep-equal.
\<close>

inductive deep_eq :: "heap \<Rightarrow> jsval \<Rightarrow> jsval \<Rightarrow> bool"
  and deep_eq_fields :: "heap \<Rightarrow> (string \<times> jsval) list \<Rightarrow> (string \<times> jsval) list \<Rightarrow> bool"
  and deep_eq_elems :: "heap \<Rightarrow> jsval list \<Rightarrow> jsval list \<Rightarrow> bool"
  for h :: heap
where
  deep_same: "deep_eq h v v"
| deep_object:
    "a < length h \<Longrightarrow> b < length h \<Longrightarrow> h ! a = JObject fs \<Longrightarrow> h ! b = JObject gs \<Longrightarrow>
     deep_eq_fields h fs gs \<Longrightarrow> deep_eq h (JRef a) (JRef b)"
| deep_array:
    "a < length h \<Longrightarrow> b < length h \<Longrightarrow> h ! a = JArray xs \<Longrightarrow> h ! b = JArray ys \<Longrightarrow>
     deep_eq_elems h xs ys \<Longrightarrow> deep_eq h (JRef a) (JRef b)"
| fields_nil: "deep_eq_fields h [] []"
| fields_cons:
    "deep_eq h v w \<Longrightarrow> deep_eq_fields h fs gs \<Longrightarrow>
     deep_eq_fields h ((k, v) # fs) ((k, w) # gs)"
| elems_nil: "deep_eq_elems h [] []"
| elems_cons:
    "deep_eq h v w \<Longrightarrow> deep_eq_elems h xs ys \<Longrightarrow> deep_eq_elems h (v # xs) (w # ys)"

code_pred deep_eq .

section \<open>Example inputs\<close>

text \<open>
  \<^verbatim>\<open>{event: "call.received",
    data: {call: {id: "call123", from: "12345@s.whatsapp.net",
                  date: "2025-10-17T12:00:00Z", isGroup: false}}}\<close>
  at address 2; the \<^verbatim>\<open>call\<close> object is cell 0 and \<^verbatim>\<open>data\<close> is cell 1.
\<close>

definition call_heap :: heap where
  "call_heap =
     [JObject [(''id'', JStr ''call123''), (''from'', JStr ''12345@s.whatsapp.net''),
               (''date'', JStr ''2025-10-17T12:00:00Z''), (''isGroup'', JBool False)],
      JObject [(''call'', JRef 0)],
      JObject [(''event'', JStr ''call.received''), (''data'', JRef 1)]]"

text \<open>The \<^verbatim>\<open>messages-group.received\<close> delivery of the test suite, at address 3.\<close>

definition group_heap :: heap where
  "group_heap =
     [JObject [(''id'', JStr ''msg3''), (''fromMe'', JBool False),
               (''remoteJid'', JStr ''99999-161@g.us''),
               (''participant'', JStr ''12345@s.whatsapp.net'')],
      JObject [(''conversation'', JStr ''group hello'')],
      JObject [(''key'', JRef 0), (''message'', JRef 1)],
      JObject [(''event'', JStr ''messages-group.received''),
               (''timestamp'', JNum (Fin 1697640000)),
               (''data'', JRef 2), (''sessionId'', JStr ''session4'')]]"

text \<open>The \<^verbatim>\<open>unknown.custom.event\<close> delivery of the test suite, at address 1.\<close>

definition custom_event_heap :: heap where
  "custom_event_heap =
     [JObject [(''foo'', JStr ''bar'')],
      JObject [(''event'', JStr ''unknown.custom.event''),
               (''timestamp'', JNum (Fin 1697640000)),
               (''data'', JRef 0), (''sessionId'', JStr ''sessionX'')]]"

text \<open>\<^verbatim>\<open>{event: 5}\<close> and \<^verbatim>\<open>{event: 42, data: "payload"}\<close>: the event is a number.\<close>

definition numeric_event_heap :: heap where
  "numeric_event_heap = [JObject [(''event'', JNum (Fin 5))]]"

definition numeric42_heap :: heap where
  "numeric42_heap = [JObject [(''event'', JNum (Fin 42)), (''data'', JStr ''payload'')]]"

text \<open>\<^verbatim>\<open>{event: "chats.upsert", data: [], raw: true}\<close>: a known event that has a property
  named \<^verbatim>\<open>raw\<close> of its own.\<close>

definition raw_field_heap :: heap where
  "raw_field_heap =
     [JObject [(''event'', JStr ''chats.upsert''), (''data'', JRef 1), (''raw'', JBool True)],
      JArray []]"

text \<open>\<^verbatim>\<open>{event: "", timestamp: 1697640000, sessionId: "session1"}\<close>: the event is empty.\<close>

definition empty_event_heap :: heap where
  "empty_event_heap =
     [JObject [(''event'', JStr []), (''timestamp'', JNum (Fin 1697640000)),
               (''sessionId'', JStr ''session1'')]]"

section \<open>The switch and the event names\<close>

lemma strict_eq_JStr: "strict_eq v (JStr s) = (v = JStr s)"
  by (cases v) (simp_all add: strict_eq_def)

lemma switch_cases_set: "set switch_cases = set WasenderWebhookEventType"
  by (auto simp: switch_cases_def WasenderWebhookEventType_def)

lemma known_count:
  "length WasenderWebhookEventType = 22 \<and> distinct WasenderWebhookEventType"
  by (simp add: WasenderWebhookEventType_def event_name_defs)

lemma switch_matches:
  "list_ex (\<lambda>label. strict_eq ev (JStr label)) switch_cases
     = (\<exists>s. ev = JStr s \<and> s \<in> set WasenderWebhookEventType)"
  unfolding list_ex_iff switch_cases_set strict_eq_JStr by auto

lemma known_nonempty: "s \<in> set WasenderWebhookEventType \<Longrightarrow> s \<noteq> []"
  by (auto simp: WasenderWebhookEventType_def event_name_defs)

section \<open>Reading from the heap\<close>

lemma get_prop_append: "allocated h v \<Longrightarrow> get_prop (h @ hs) v k = get_prop h v k"
  by (cases v) (simp_all add: nth_append)

lemma get_prop_object:
  "truthy v \<Longrightarrow> typeof v = ''object'' \<Longrightarrow> allocated h v \<Longrightarrow> \<exists>x. get_prop h v k = Inr x"
  by (cases v) (auto split: jsobj.splits)

lemma string_prop_event: "string_prop s ''event'' = JUndefined"
  by (simp add: string_prop_def array_index_def is_digit_def)

text \<open>Only an object in the heap has a truthy \<^verbatim>\<open>event\<close>.\<close>

lemma event_read_object:
  "get_prop h v ''event'' = Inr x \<Longrightarrow> truthy x \<Longrightarrow>
     truthy v \<and> typeof v = ''object'' \<and> allocated h v"
  by (cases v) (auto simp: string_prop_event split: if_splits)

lemma array_prop_event: "array_prop xs ''event'' = JUndefined"
  by (simp add: array_prop_def array_index_def is_digit_def)

text \<open>A truthy \<^verbatim>\<open>event\<close> is an own property of the object it is read from.\<close>

lemma event_read_own:
  "get_prop h v ''event'' = Inr x \<Longrightarrow> truthy x \<Longrightarrow> has_own h v ''event''"
proof (cases v)
  case (JRef a)
  assume g: "get_prop h v ''event'' = Inr x" and t: "truthy x"
  from g JRef have a: "a < length h" by (simp split: if_splits)
  show ?thesis
  proof (cases "h ! a")
    case (JObject fs)
    with g t JRef a have "map_of fs ''event'' = Some x"
      by (auto simp: object_prop_def split: option.splits)
    then have "''event'' \<in> set (map fst fs)"
      by (auto dest: map_of_SomeD intro: rev_image_eqI)
    with JRef a JObject show ?thesis by simp
  next
    case (JArray xs)
    with g t JRef a show ?thesis by (simp add: array_prop_event)
  qed
qed (auto simp: string_prop_event)

section \<open>The three outcomes of the dispatcher\<close>

lemma dispatch_guard:
  "\<not> truthy raw \<or> typeof raw \<noteq> ''object'' \<or>
     (\<exists>e. get_prop h raw ''event'' = Inr e \<and> \<not> truthy e)
   \<Longrightarrow> dispatchWebhookEvent h raw = Inr (new_object h (unknown_event raw))"
  by (auto simp: dispatchWebhookEvent_def bind_result_def)

lemma dispatch_match:
  "get_prop h raw ''event'' = Inr (JStr s) \<Longrightarrow> s \<in> set WasenderWebhookEventType
   \<Longrightarrow> dispatchWebhookEvent h raw = Inr (raw, h)"
  using event_read_object [of h raw "JStr s"] known_nonempty [of s]
  by (simp add: dispatchWebhookEvent_def bind_result_def switch_matches)

lemma dispatch_default:
  assumes ev: "get_prop h raw ''event'' = Inr ev" and t: "truthy ev"
    and no: "\<forall>s. ev = JStr s \<longrightarrow> s \<notin> set WasenderWebhookEventType"
  shows "\<exists>ts d sid.
     get_prop h raw ''timestamp'' = Inr ts \<and> get_prop h raw ''data'' = Inr d \<and>
     get_prop h raw ''sessionId'' = Inr sid \<and>
     dispatchWebhookEvent h raw = Inr (new_object h (fallback_event ev ts d sid raw))"
proof -
  from event_read_object [OF ev t]
  have obj: "truthy raw" "typeof raw = ''object''" "allocated h raw" by simp_all
  obtain ts where ts: "get_prop h raw ''timestamp'' = Inr ts"
    using get_prop_object [OF obj] by blast
  obtain d where d: "get_prop h raw ''data'' = Inr d"
    using get_prop_object [OF obj] by blast
  obtain sid where sid: "get_prop h raw ''sessionId'' = Inr sid"
    using get_prop_object [OF obj] by blast
  have nomatch: "\<not> (\<exists>s. ev = JStr s \<and> s \<in> set WasenderWebhookEventType)"
    using no by blast
  have "dispatchWebhookEvent h raw = Inr (new_object h (fallback_event ev ts d sid raw))"
    using obj ev t ts d sid
    by (simp add: dispatchWebhookEvent_def bind_result_def switch_matches nomatch)
  with ts d sid show ?thesis by blast
qed

text \<open>
  Every call either returns its argument or allocates one object, and the choice and the
  object's properties do not depend on what else has been allocated since.
\<close>

lemma dispatch_outcome:
  assumes a: "allocated h raw"
  shows "(\<forall>hs. dispatchWebhookEvent (h @ hs) raw = Inr (raw, h @ hs)) \<or>
         (\<exists>fs. \<forall>hs. dispatchWebhookEvent (h @ hs) raw = Inr (new_object (h @ hs) fs))"
proof (cases "\<not> truthy raw \<or> typeof raw \<noteq> ''object''")
  case True
  then have "\<forall>hs. dispatchWebhookEvent (h @ hs) raw
                  = Inr (new_object (h @ hs) (unknown_event raw))"
    by (intro allI dispatch_guard) blast
  then show ?thesis by blast
next
  case False
  then obtain e where e: "get_prop h raw ''event'' = Inr e"
    using get_prop_object [of raw h "''event''"] a by blast
  then have e': "get_prop (h @ hs) raw ''event'' = Inr e" for hs
    by (simp add: get_prop_append [OF a])
  show ?thesis
  proof (cases "truthy e")
    case False
    with e' have "\<forall>hs. dispatchWebhookEvent (h @ hs) raw
                       = Inr (new_object (h @ hs) (unknown_event raw))"
      by (intro allI dispatch_guard) blast
    then show ?thesis by blast
  next
    case True
    show ?thesis
    proof (cases "\<exists>s. e = JStr s \<and> s \<in> set WasenderWebhookEventType")
      case True
      with e' show ?thesis using dispatch_match by blast
    next
      case False
      then have no: "\<forall>s. e = JStr s \<longrightarrow> s \<notin> set WasenderWebhookEventType" by blast
      from dispatch_default [OF e \<open>truthy e\<close> no]
      obtain ts d sid where f: "get_prop h raw ''timestamp'' = Inr ts"
        "get_prop h raw ''data'' = Inr d" "get_prop h raw ''sessionId'' = Inr sid"
        by blast
      have "dispatchWebhookEvent (h @ hs) raw
              = Inr (new_object (h @ hs) (fallback_event e ts d sid raw))" for hs
        using dispatch_default [OF e' \<open>truthy e\<close> no, of hs] f
        by (auto simp: get_prop_append [OF a])
      then show ?thesis by blast
    qed
  qed
qed

section \<open>Structural equality of fresh objects\<close>

lemma deep_eq_fields_refl: "deep_eq_fields h fs fs"
proof (induction fs)
  case Nil
  show ?case by (rule fields_nil)
next
  case (Cons f fs)
  obtain k v where f: "f = (k, v)" by (cases f)
  show ?case unfolding f by (rule fields_cons [OF deep_same Cons])
qed

lemma deep_eq_fresh_objects:
  "deep_eq (h @ [JObject fs, JObject fs]) (JRef (length h)) (JRef (Suc (length h)))"
  by (rule deep_object [where fs = fs and gs = fs])
     (simp_all add: nth_append deep_eq_fields_refl)

section \<open>Known events\<close>

text \<open>
  Claim C1. There are 22 known event names. For each of them, when the input is an object
  whose \<^verbatim>\<open>event\<close> is that name, \<^verbatim>\<open>dispatchWebhookEvent\<close> returns an event whose
  \<^verbatim>\<open>event\<close> is the input's event name and whose \<^verbatim>\<open>timestamp\<close>, \<^verbatim>\<open>sessionId\<close> and
  \<^verbatim>\<open>data\<close> are the input's values, uncoerced; everything read below \<^verbatim>\<open>data\<close> reads
  as it does in the input.
\<close>

theorem dispatch_known_roundtrip:
  assumes "name \<in> set WasenderWebhookEventType"
    and "get_prop h raw ''event'' = Inr (JStr name)"
  shows "length WasenderWebhookEventType = 22 \<and> distinct WasenderWebhookEventType \<and>
    (\<exists>r h' ts sid d.
       dispatchWebhookEvent h raw = Inr (r, h') \<and>
       get_prop h' r ''event'' = Inr (JStr name) \<and>
       get_prop h raw ''timestamp'' = Inr ts \<and> get_prop h' r ''timestamp'' = Inr ts \<and>
       get_prop h raw ''sessionId'' = Inr sid \<and> get_prop h' r ''sessionId'' = Inr sid \<and>
       get_prop h raw ''data'' = Inr d \<and> get_prop h' r ''data'' = Inr d \<and>
       (\<forall>p. get_path h' d p = get_path h d p))"
proof -
  have t: "truthy (JStr name)" using known_nonempty [OF assms(1)] by simp
  from event_read_object [OF assms(2) t]
  have obj: "truthy raw" "typeof raw = ''object''" "allocated h raw" by simp_all
  obtain ts where ts: "get_prop h raw ''timestamp'' = Inr ts"
    using get_prop_object [OF obj] by blast
  obtain d where d: "get_prop h raw ''data'' = Inr d"
    using get_prop_object [OF obj] by blast
  obtain sid where sid: "get_prop h raw ''sessionId'' = Inr sid"
    using get_prop_object [OF obj] by blast
  have "dispatchWebhookEvent h raw = Inr (raw, h)"
    using assms by (rule dispatch_match [rotated])
  with assms(2) ts d sid known_count show ?thesis by simp
qed

theorem dispatch_known_roundtrip_witness:
  "''messages-group.received'' \<in> set WasenderWebhookEventType \<and>
   get_prop group_heap (JRef 3) ''event'' = Inr (JStr ''messages-group.received'') \<and>
   (\<exists>r h'. dispatchWebhookEvent group_heap (JRef 3) = Inr (r, h') \<and>
      get_prop h' r ''event'' = Inr (JStr ''messages-group.received'') \<and>
      get_prop h' r ''timestamp'' = Inr (JNum (Fin 1697640000)) \<and>
      get_prop h' r ''sessionId'' = Inr (JStr ''session4'') \<and>
      get_prop h' r ''data'' = Inr (JRef 2))"
proof -
  have k: "''messages-group.received'' \<in> set WasenderWebhookEventType"
    by (simp add: WasenderWebhookEventType_def event_name_defs)
  have e: "get_prop group_heap (JRef 3) ''event'' = Inr (JStr ''messages-group.received'')"
    by (simp add: group_heap_def object_prop_def)
  have f: "get_prop group_heap (JRef 3) ''timestamp'' = Inr (JNum (Fin 1697640000))"
     "get_prop group_heap (JRef 3) ''sessionId'' = Inr (JStr ''session4'')"
     "get_prop group_heap (JRef 3) ''data'' = Inr (JRef 2)"
    by (simp_all add: group_heap_def object_prop_def)
  show ?thesis using dispatch_known_roundtrip [OF k e] k e f by auto
qed

section \<open>Unrecognized events\<close>

text \<open>
  Claim C2. When the input is an object whose \<^verbatim>\<open>event\<close> is a non-empty string that is
  not one of the known names, \<^verbatim>\<open>dispatchWebhookEvent\<close> returns a new fallback object
  whose \<^verbatim>\<open>event\<close> is that very string, whose \<^verbatim>\<open>timestamp\<close>, \<^verbatim>\<open>data\<close> and
  \<^verbatim>\<open>sessionId\<close> are the input's, and whose \<^verbatim>\<open>raw\<close> is the input itself.
\<close>

theorem dispatch_unrecognized_fallback:
  assumes "s \<noteq> []" and "s \<notin> set WasenderWebhookEventType"
    and "get_prop h raw ''event'' = Inr (JStr s)"
  shows "\<exists>ts d sid.
     get_prop h raw ''timestamp'' = Inr ts \<and> get_prop h raw ''data'' = Inr d \<and>
     get_prop h raw ''sessionId'' = Inr sid \<and>
     dispatchWebhookEvent h raw =
       Inr (JRef (length h),
            h @ [JObject [(''event'', JStr s), (''timestamp'', ts), (''data'', d),
                          (''sessionId'', sid), (''raw'', raw)]])"
  using dispatch_default [of h raw "JStr s"] assms
  by (simp add: new_object_def fallback_event_def)

theorem dispatch_unrecognized_fallback_witness:
  "''unknown.custom.event'' \<noteq> [] \<and>
   ''unknown.custom.event'' \<notin> set WasenderWebhookEventType \<and>
   get_prop custom_event_heap (JRef 1) ''event'' = Inr (JStr ''unknown.custom.event'') \<and>
   dispatchWebhookEvent custom_event_heap (JRef 1) =
     Inr (JRef 2,
          custom_event_heap @
            [JObject [(''event'', JStr ''unknown.custom.event''),
                      (''timestamp'', JNum (Fin 1697640000)), (''data'', JRef 0),
                      (''sessionId'', JStr ''sessionX''), (''raw'', JRef 1)]])"
proof -
  have n: "''unknown.custom.event'' \<noteq> []" by simp
  have k: "''unknown.custom.event'' \<notin> set WasenderWebhookEventType"
    by (simp add: WasenderWebhookEventType_def event_name_defs)
  have e: "get_prop custom_event_heap (JRef 1) ''event'' = Inr (JStr ''unknown.custom.event'')"
    by (simp add: custom_event_heap_def object_prop_def)
  have f: "get_prop custom_event_heap (JRef 1) ''timestamp'' = Inr (JNum (Fin 1697640000))"
     "get_prop custom_event_heap (JRef 1) ''sessionId'' = Inr (JStr ''sessionX'')"
     "get_prop custom_event_heap (JRef 1) ''data'' = Inr (JRef 0)"
     "length custom_event_heap = 2"
    by (simp_all add: custom_event_heap_def object_prop_def)
  show ?thesis using dispatch_unrecognized_fallback [OF n k e] k e f by auto
qed

section \<open>Malformed input\<close>

text \<open>
  Claim C3, as the code has it. When the input is falsy or not of type \<^verbatim>\<open>object\<close>, or is
  an object whose \<^verbatim>\<open>event\<close> is falsy (absent, \<^verbatim>\<open>undefined\<close>, \<^verbatim>\<open>null\<close>, \<^verbatim>\<open>false\<close>, a
  zero, \<^verbatim>\<open>NaN\<close> or the empty string), \<^verbatim>\<open>dispatchWebhookEvent\<close> returns a new fallback
  object whose \<^verbatim>\<open>event\<close> is the string \<^verbatim>\<open>unknown\<close> and whose \<^verbatim>\<open>data\<close> and \<^verbatim>\<open>raw\<close>
  are both the whole input.
\<close>

theorem dispatch_malformed_unknown:
  assumes "\<not> truthy raw \<or> typeof raw \<noteq> ''object'' \<or>
           (\<exists>e. get_prop h raw ''event'' = Inr e \<and> \<not> truthy e)"
  shows "dispatchWebhookEvent h raw =
           Inr (JRef (length h),
                h @ [JObject [(''event'', JStr ''unknown''), (''data'', raw), (''raw'', raw)]])"
  using dispatch_guard [OF assms] by (simp add: new_object_def unknown_event_def)

theorem dispatch_malformed_unknown_witness:
  "\<not> truthy JNull \<and>
   dispatchWebhookEvent [] JNull =
     Inr (JRef 0, [JObject [(''event'', JStr ''unknown''), (''data'', JNull), (''raw'', JNull)]])"
  using dispatch_malformed_unknown [of JNull "[]"] by simp

text \<open>
  Claim C3 as written also promises \<^verbatim>\<open>unknown\<close> for an object whose \<^verbatim>\<open>event\<close> is not a
  string. For \<^verbatim>\<open>{event: 5}\<close> the guard lets the input through, and the result's
  \<^verbatim>\<open>event\<close> is the number 5.
\<close>

theorem dispatch_nonstring_event_counterexample:
  "get_prop numeric_event_heap (JRef 0) ''event'' = Inr (JNum (Fin 5)) \<and>
   dispatchWebhookEvent numeric_event_heap (JRef 0) =
     Inr (JRef 1,
          numeric_event_heap @
            [JObject [(''event'', JNum (Fin 5)), (''timestamp'', JUndefined),
                      (''data'', JUndefined), (''sessionId'', JUndefined),
                      (''raw'', JRef 0)]]) \<and>
   get_prop (numeric_event_heap @
            [JObject [(''event'', JNum (Fin 5)), (''timestamp'', JUndefined),
                      (''data'', JUndefined), (''sessionId'', JUndefined),
                      (''raw'', JRef 0)]]) (JRef 1) ''event'' \<noteq> Inr (JStr ''unknown'')"
  by (simp add: numeric_event_heap_def dispatchWebhookEvent_def bind_result_def
        object_prop_def switch_matches new_object_def fallback_event_def)

section \<open>Totality\<close>

text \<open>
  Claim C4. \<^verbatim>\<open>dispatchWebhookEvent\<close> returns an event for every input value and never
  throws: \<^verbatim>\<open>null\<close>, \<^verbatim>\<open>undefined\<close>, the other primitives, arrays, objects without an
  \<^verbatim>\<open>event\<close> and objects whose \<^verbatim>\<open>event\<close> is not a string included. (An input value is a
  primitive or a reference to a cell of the heap.) What it returns is an event value: a
  reference to an object of the resulting heap that has an \<^verbatim>\<open>event\<close> property of its
  own, with a truthy value; and no cell of the input heap is changed.
\<close>

theorem dispatch_total:
  assumes a: "allocated h raw"
  shows "\<exists>r h' e. dispatchWebhookEvent h raw = Inr (r, h') \<and>
           typeof r = ''object'' \<and> truthy r \<and> allocated h' r \<and>
           has_own h' r ''event'' \<and> get_prop h' r ''event'' = Inr e \<and> truthy e \<and>
           take (length h) h' = h"
proof (cases "\<not> truthy raw \<or> typeof raw \<noteq> ''object''")
  case True
  then have "dispatchWebhookEvent h raw = Inr (new_object h (unknown_event raw))"
    by (intro dispatch_guard) blast
  then show ?thesis by (simp add: new_object_def unknown_event_def object_prop_def)
next
  case False
  then obtain e where e: "get_prop h raw ''event'' = Inr e"
    using get_prop_object [of raw h "''event''"] a by blast
  show ?thesis
  proof (cases "truthy e")
    case False
    with e have "dispatchWebhookEvent h raw = Inr (new_object h (unknown_event raw))"
      by (intro dispatch_guard) blast
    then show ?thesis by (simp add: new_object_def unknown_event_def object_prop_def)
  next
    case True
    show ?thesis
    proof (cases "\<exists>s. e = JStr s \<and> s \<in> set WasenderWebhookEventType")
      case known: True
      then have "dispatchWebhookEvent h raw = Inr (raw, h)"
        using e dispatch_match by blast
      moreover have "typeof raw = ''object''" "truthy raw" using False by simp_all
      ultimately show ?thesis using e True a event_read_own [OF e True] by simp
    next
      case False
      then have no: "\<forall>s. e = JStr s \<longrightarrow> s \<notin> set WasenderWebhookEventType" by blast
      from dispatch_default [OF e True no] True show ?thesis
        by (auto simp: new_object_def fallback_event_def object_prop_def)
    qed
  qed
qed

theorem dispatch_total_witness:
  "allocated [] JNull \<and> allocated [] (JNum (Fin 7)) \<and> allocated [JObject []] (JRef 0) \<and>
   allocated numeric_event_heap (JRef 0) \<and> allocated call_heap (JRef 2) \<and>
   (\<exists>r h' e. dispatchWebhookEvent [] JNull = Inr (r, h') \<and>
      typeof r = ''object'' \<and> truthy r \<and> allocated h' r \<and>
      has_own h' r ''event'' \<and> get_prop h' r ''event'' = Inr e \<and> truthy e) \<and>
   (\<exists>r h' e. dispatchWebhookEvent [] (JNum (Fin 7)) = Inr (r, h') \<and>
      typeof r = ''object'' \<and> truthy r \<and> allocated h' r \<and>
      has_own h' r ''event'' \<and> get_prop h' r ''event'' = Inr e \<and> truthy e) \<and>
   (\<exists>r h' e. dispatchWebhookEvent [JObject []] (JRef 0) = Inr (r, h') \<and>
      typeof r = ''object'' \<and> truthy r \<and> allocated h' r \<and>
      has_own h' r ''event'' \<and> get_prop h' r ''event'' = Inr e \<and> truthy e) \<and>
   (\<exists>r h' e. dispatchWebhookEvent numeric_event_heap (JRef 0) = Inr (r, h') \<and>
      typeof r = ''object'' \<and> truthy r \<and> allocated h' r \<and>
      has_own h' r ''event'' \<and> get_prop h' r ''event'' = Inr e \<and> truthy e) \<and>
   (\<exists>r h' e. dispatchWebhookEvent call_heap (JRef 2) = Inr (r, h') \<and>
      typeof r = ''object'' \<and> truthy r \<and> allocated h' r \<and>
      has_own h' r ''event'' \<and> get_prop h' r ''event'' = Inr e \<and> truthy e)"
proof -
  have a: "allocated [] JNull" "allocated [] (JNum (Fin 7))" "allocated [JObject []] (JRef 0)"
    "allocated numeric_event_heap (JRef 0)" "allocated call_heap (JRef 2)"
    by (simp_all add: numeric_event_heap_def call_heap_def)
  show ?thesis
    using dispatch_total [OF a(1)] dispatch_total [OF a(2)] dispatch_total [OF a(3)]
      dispatch_total [OF a(4)] dispatch_total [OF a(5)] a
    by blast
qed

section \<open>Signature check\<close>

text \<open>
  Claim C5. \<^verbatim>\<open>verifyWasenderWebhookSignature\<close> returns false whenever either argument is
  \<^verbatim>\<open>undefined\<close>, \<^verbatim>\<open>null\<close> or the empty string; on two non-empty strings it returns true
  exactly when they are equal. In particular
  verify(undefined, "secret") = false, verify("", "secret") = false, verify("s", "") = false,
  verify("abc", "abc") = true and verify("abc", "abcd") = false.
\<close>

theorem verify_signature_spec:
  "(a \<in> {JUndefined, JNull, JStr []} \<or> b \<in> {JUndefined, JNull, JStr []}
      \<longrightarrow> \<not> verifyWasenderWebhookSignature a b)
   \<and> (s \<noteq> [] \<and> t \<noteq> []
      \<longrightarrow> verifyWasenderWebhookSignature (JStr s) (JStr t) = (s = t))
   \<and> \<not> verifyWasenderWebhookSignature JUndefined (JStr ''secret'')
   \<and> \<not> verifyWasenderWebhookSignature (JStr []) (JStr ''secret'')
   \<and> \<not> verifyWasenderWebhookSignature (JStr ''s'') (JStr [])
   \<and> verifyWasenderWebhookSignature (JStr ''abc'') (JStr ''abc'')
   \<and> \<not> verifyWasenderWebhookSignature (JStr ''abc'') (JStr ''abcd'')"
  by (auto simp: verifyWasenderWebhookSignature_def strict_eq_def)

theorem verify_signature_spec_witness:
  "\<not> verifyWasenderWebhookSignature JNull (JStr ''secret'')
   \<and> verifyWasenderWebhookSignature (JStr ''k3y'') (JStr ''k3y'')"
  using verify_signature_spec [of JNull "JStr ''secret''" "''k3y''" "''k3y''"]
  by simp

section \<open>Determinism\<close>

text \<open>
  Claim C6. Dispatching the same input twice gives two deep-equal events: the second call,
  run in the heap the first one left, returns a value that is structurally equal to the
  first result, and neither call changes a cell that was there before.
\<close>

theorem dispatch_deterministic:
  assumes a: "allocated h raw"
  shows "\<exists>r1 h1 r2 h2.
     dispatchWebhookEvent h raw = Inr (r1, h1) \<and>
     dispatchWebhookEvent h1 raw = Inr (r2, h2) \<and>
     take (length h) h2 = h \<and>
     deep_eq h2 r1 r2"
  using dispatch_outcome [OF a]
proof
  assume same: "\<forall>hs. dispatchWebhookEvent (h @ hs) raw = Inr (raw, h @ hs)"
  from same [rule_format, of "[]"] have "dispatchWebhookEvent h raw = Inr (raw, h)" by simp
  then show ?thesis using deep_same [of h raw] by auto
next
  assume "\<exists>fs. \<forall>hs. dispatchWebhookEvent (h @ hs) raw = Inr (new_object (h @ hs) fs)"
  then obtain fs where
    fresh: "\<And>hs. dispatchWebhookEvent (h @ hs) raw = Inr (new_object (h @ hs) fs)"
    by blast
  have one: "dispatchWebhookEvent h raw = Inr (JRef (length h), h @ [JObject fs])"
    using fresh [of "[]"] by (simp add: new_object_def)
  have two: "dispatchWebhookEvent (h @ [JObject fs]) raw
               = Inr (JRef (Suc (length h)), h @ [JObject fs, JObject fs])"
    using fresh [of "[JObject fs]"] by (simp add: new_object_def)
  have keep: "take (length h) (h @ [JObject fs, JObject fs]) = h" by simp
  show ?thesis using one two keep deep_eq_fresh_objects [of h fs] by blast
qed

theorem dispatch_deterministic_witness:
  "allocated custom_event_heap (JRef 1) \<and>
   (\<exists>r1 h1 r2 h2.
     dispatchWebhookEvent custom_event_heap (JRef 1) = Inr (r1, h1) \<and>
     dispatchWebhookEvent h1 (JRef 1) = Inr (r2, h2) \<and>
     take (length custom_event_heap) h2 = custom_event_heap \<and>
     deep_eq h2 r1 r2)"
proof -
  have a: "allocated custom_event_heap (JRef 1)" by (simp add: custom_event_heap_def)
  show ?thesis using dispatch_deterministic [OF a] a by simp
qed

section \<open>Scenarios\<close>

text \<open>
  Claim C7. For the input
  \<^verbatim>\<open>{event: "call.received", data: {call: {id: "call123", from: "12345@s.whatsapp.net",
  date: "2025-10-17T12:00:00Z", isGroup: false}}}\<close>
  the result has \<^verbatim>\<open>event\<close> equal to \<^verbatim>\<open>call.received\<close> and \<^verbatim>\<open>data.call.id\<close> equal to
  \<^verbatim>\<open>call123\<close>. For every \<^verbatim>\<open>messages-group.received\<close> input with
  \<^verbatim>\<open>data.key.participant\<close> equal to \<^verbatim>\<open>12345@s.whatsapp.net\<close> and
  \<^verbatim>\<open>data.message.conversation\<close> equal to \<^verbatim>\<open>group hello\<close>, the result has the same
  \<^verbatim>\<open>event\<close> and the same two values.
\<close>

theorem dispatch_scenarios:
  "dispatchWebhookEvent call_heap (JRef 2) = Inr (JRef 2, call_heap) \<and>
   get_prop call_heap (JRef 2) ''event'' = Inr (JStr ''call.received'') \<and>
   get_path call_heap (JRef 2) [''data'', ''call'', ''id''] = Inr (JStr ''call123'') \<and>
   (get_prop h raw ''event'' = Inr (JStr ''messages-group.received'') \<and>
    get_path h raw [''data'', ''key'', ''participant''] = Inr (JStr ''12345@s.whatsapp.net'') \<and>
    get_path h raw [''data'', ''message'', ''conversation''] = Inr (JStr ''group hello'')
    \<longrightarrow> (\<exists>r h'. dispatchWebhookEvent h raw = Inr (r, h') \<and>
          get_prop h' r ''event'' = Inr (JStr ''messages-group.received'') \<and>
          get_path h' r [''data'', ''key'', ''participant'']
            = Inr (JStr ''12345@s.whatsapp.net'') \<and>
          get_path h' r [''data'', ''message'', ''conversation'']
            = Inr (JStr ''group hello'')))"
proof -
  have e: "get_prop call_heap (JRef 2) ''event'' = Inr (JStr ''call.received'')"
    by (simp add: call_heap_def object_prop_def)
  have k: "''call.received'' \<in> set WasenderWebhookEventType"
    by (simp add: WasenderWebhookEventType_def event_name_defs)
  have p: "get_path call_heap (JRef 2) [''data'', ''call'', ''id''] = Inr (JStr ''call123'')"
    by (simp add: call_heap_def object_prop_def bind_result_def)
  have g: "''messages-group.received'' \<in> set WasenderWebhookEventType"
    by (simp add: WasenderWebhookEventType_def event_name_defs)
  show ?thesis using dispatch_match [OF e k] e p dispatch_match [OF _ g, of h raw] by blast
qed

theorem dispatch_scenarios_witness:
  "get_prop group_heap (JRef 3) ''event'' = Inr (JStr ''messages-group.received'') \<and>
   get_path group_heap (JRef 3) [''data'', ''key'', ''participant'']
     = Inr (JStr ''12345@s.whatsapp.net'') \<and>
   get_path group_heap (JRef 3) [''data'', ''message'', ''conversation'']
     = Inr (JStr ''group hello'') \<and>
   (\<exists>r h'. dispatchWebhookEvent group_heap (JRef 3) = Inr (r, h') \<and>
      get_prop h' r ''event'' = Inr (JStr ''messages-group.received'') \<and>
      get_path h' r [''data'', ''key'', ''participant'']
        = Inr (JStr ''12345@s.whatsapp.net'') \<and>
      get_path h' r [''data'', ''message'', ''conversation''] = Inr (JStr ''group hello''))"
proof -
  have e: "get_prop group_heap (JRef 3) ''event'' = Inr (JStr ''messages-group.received'')"
    by (simp add: group_heap_def object_prop_def)
  have p: "get_path group_heap (JRef 3) [''data'', ''key'', ''participant'']
             = Inr (JStr ''12345@s.whatsapp.net'')"
    by (simp add: group_heap_def object_prop_def bind_result_def)
  have c: "get_path group_heap (JRef 3) [''data'', ''message'', ''conversation'']
             = Inr (JStr ''group hello'')"
    by (simp add: group_heap_def object_prop_def bind_result_def)
  show ?thesis using dispatch_scenarios [of group_heap "JRef 3"] e p c by blast
qed

section \<open>An event that is not a string\<close>

text \<open>
  Claim C8. When the input is an object whose \<^verbatim>\<open>event\<close> is truthy but not a string (a
  non-zero number, say), \<^verbatim>\<open>dispatchWebhookEvent\<close> passes the guard and returns the
  fallback object of the \<^verbatim>\<open>default\<close> branch: its \<^verbatim>\<open>event\<close> is that value itself, not
  the string \<^verbatim>\<open>unknown\<close>.
\<close>

theorem dispatch_truthy_nonstring_event:
  assumes "get_prop h raw ''event'' = Inr v" and "truthy v" and "\<forall>s. v \<noteq> JStr s"
  shows "\<exists>ts d sid.
     get_prop h raw ''timestamp'' = Inr ts \<and> get_prop h raw ''data'' = Inr d \<and>
     get_prop h raw ''sessionId'' = Inr sid \<and>
     dispatchWebhookEvent h raw =
       Inr (JRef (length h),
            h @ [JObject [(''event'', v), (''timestamp'', ts), (''data'', d),
                          (''sessionId'', sid), (''raw'', raw)]]) \<and>
     v \<noteq> JStr ''unknown''"
  using dispatch_default [of h raw v] assms
  by (simp add: new_object_def fallback_event_def)

theorem dispatch_truthy_nonstring_event_witness:
  "get_prop numeric42_heap (JRef 0) ''event'' = Inr (JNum (Fin 42)) \<and>
   truthy (JNum (Fin 42)) \<and> (\<forall>s. JNum (Fin 42) \<noteq> JStr s) \<and>
   dispatchWebhookEvent numeric42_heap (JRef 0) =
     Inr (JRef 1,
          numeric42_heap @
            [JObject [(''event'', JNum (Fin 42)), (''timestamp'', JUndefined),
                      (''data'', JStr ''payload''), (''sessionId'', JUndefined),
                      (''raw'', JRef 0)]])"
proof -
  have e: "get_prop numeric42_heap (JRef 0) ''event'' = Inr (JNum (Fin 42))"
    by (simp add: numeric42_heap_def object_prop_def)
  have t: "truthy (JNum (Fin 42))" by simp
  have n: "\<forall>s. JNum (Fin 42) \<noteq> JStr s" by simp
  have f: "get_prop numeric42_heap (JRef 0) ''timestamp'' = Inr JUndefined"
     "get_prop numeric42_heap (JRef 0) ''sessionId'' = Inr JUndefined"
     "get_prop numeric42_heap (JRef 0) ''data'' = Inr (JStr ''payload'')"
     "length numeric42_heap = 1"
    by (simp_all add: numeric42_heap_def object_prop_def)
  show ?thesis using dispatch_truthy_nonstring_event [OF e t n] e f by auto
qed

section \<open>Known events are returned as they came\<close>

text \<open>
  Claim C9, as the code has it. When the input is an object whose \<^verbatim>\<open>event\<close> is one of the
  known names, \<^verbatim>\<open>dispatchWebhookEvent\<close> returns the input itself and allocates nothing:
  the result has exactly the input's own properties with the input's values, so no
  property is lost and none is added, and the result has a \<^verbatim>\<open>raw\<close> property only if the
  input has one.
\<close>

theorem dispatch_known_returns_input:
  assumes "name \<in> set WasenderWebhookEventType"
    and "get_prop h raw ''event'' = Inr (JStr name)"
  shows "dispatchWebhookEvent h raw = Inr (raw, h) \<and>
    (\<forall>r h' k. dispatchWebhookEvent h raw = Inr (r, h') \<longrightarrow>
       has_own h' r k = has_own h raw k \<and> get_prop h' r k = get_prop h raw k)"
  using dispatch_match [OF assms(2) assms(1)] by simp

theorem dispatch_known_returns_input_witness:
  "''call.received'' \<in> set WasenderWebhookEventType \<and>
   get_prop call_heap (JRef 2) ''event'' = Inr (JStr ''call.received'') \<and>
   dispatchWebhookEvent call_heap (JRef 2) = Inr (JRef 2, call_heap) \<and>
   \<not> has_own call_heap (JRef 2) ''raw''"
proof -
  have k: "''call.received'' \<in> set WasenderWebhookEventType"
    by (simp add: WasenderWebhookEventType_def event_name_defs)
  have e: "get_prop call_heap (JRef 2) ''event'' = Inr (JStr ''call.received'')"
    by (simp add: call_heap_def object_prop_def)
  have r: "\<not> has_own call_heap (JRef 2) ''raw''"
    by (simp add: call_heap_def)
  show ?thesis using dispatch_known_returns_input [OF k e] k e r by simp
qed

text \<open>
  Claim C9 as written says that the result of a known event carries no \<^verbatim>\<open>raw\<close> property.
  The input \<^verbatim>\<open>{event: "chats.upsert", data: [], raw: true}\<close> is returned as it came, with
  its \<^verbatim>\<open>raw\<close>.
\<close>

theorem dispatch_known_raw_field_counterexample:
  "get_prop raw_field_heap (JRef 0) ''event'' = Inr (JStr ''chats.upsert'') \<and>
   ''chats.upsert'' \<in> set WasenderWebhookEventType \<and>
   dispatchWebhookEvent raw_field_heap (JRef 0) = Inr (JRef 0, raw_field_heap) \<and>
   has_own raw_field_heap (JRef 0) ''raw'' \<and>
   get_prop raw_field_heap (JRef 0) ''raw'' = Inr (JBool True)"
  by (simp add: raw_field_heap_def dispatchWebhookEvent_def bind_result_def
        object_prop_def switch_matches WasenderWebhookEventType_def event_name_defs)

section \<open>What the malformed-input fallback leaves out\<close>

text \<open>
  Claim C10. When the input is falsy or not of type \<^verbatim>\<open>object\<close>, or its \<^verbatim>\<open>event\<close> is
  absent or falsy, the fallback object that \<^verbatim>\<open>dispatchWebhookEvent\<close> returns has no
  \<^verbatim>\<open>timestamp\<close> and no \<^verbatim>\<open>sessionId\<close>, whatever the input carries under those names, and
  its \<^verbatim>\<open>data\<close> is the whole input, not the input's \<^verbatim>\<open>data\<close>.
\<close>

theorem dispatch_malformed_drops_envelope:
  assumes "\<not> truthy raw \<or> typeof raw \<noteq> ''object'' \<or>
           (\<exists>e. get_prop h raw ''event'' = Inr e \<and> \<not> truthy e)"
  shows "\<exists>r h'. dispatchWebhookEvent h raw = Inr (r, h') \<and>
     \<not> has_own h' r ''timestamp'' \<and> \<not> has_own h' r ''sessionId'' \<and>
     get_prop h' r ''timestamp'' = Inr JUndefined \<and>
     get_prop h' r ''sessionId'' = Inr JUndefined \<and>
     get_prop h' r ''data'' = Inr raw"
  using dispatch_guard [OF assms]
  by (simp add: new_object_def unknown_event_def object_prop_def)

theorem dispatch_malformed_drops_envelope_witness:
  "get_prop empty_event_heap (JRef 0) ''event'' = Inr (JStr []) \<and> \<not> truthy (JStr []) \<and>
   get_prop empty_event_heap (JRef 0) ''timestamp'' = Inr (JNum (Fin 1697640000)) \<and>
   get_prop empty_event_heap (JRef 0) ''sessionId'' = Inr (JStr ''session1'') \<and>
   (\<exists>r h'. dispatchWebhookEvent empty_event_heap (JRef 0) = Inr (r, h') \<and>
     \<not> has_own h' r ''timestamp'' \<and> \<not> has_own h' r ''sessionId'' \<and>
     get_prop h' r ''timestamp'' = Inr JUndefined \<and>
     get_prop h' r ''sessionId'' = Inr JUndefined \<and>
     get_prop h' r ''data'' = Inr (JRef 0))"
proof -
  have e: "get_prop empty_event_heap (JRef 0) ''event'' = Inr (JStr [])"
     "get_prop empty_event_heap (JRef 0) ''timestamp'' = Inr (JNum (Fin 1697640000))"
     "get_prop empty_event_heap (JRef 0) ''sessionId'' = Inr (JStr ''session1'')"
    by (simp_all add: empty_event_heap_def object_prop_def)
  have m: "\<not> truthy (JRef 0) \<or> typeof (JRef 0) \<noteq> ''object'' \<or>
           (\<exists>e. get_prop empty_event_heap (JRef 0) ''event'' = Inr e \<and> \<not> truthy e)"
    using e(1) by simp
  show ?thesis using dispatch_malformed_drops_envelope [OF m] e by simp
qed

end
